theory Spec2Isabelle
  imports Complex_Main "HOL-Library.Log_Nat"
begin

section \<open>Smart water quality monitor: the evaluation core of app.py\<close>

text \<open>
  The program is one script that runs top to bottom on every refresh. Its state between
  runs is the Streamlit session state: three history lists and the alert log. The sensor
  values of a run (\<open>ph\<close>, \<open>turbidity\<close>, \<open>tds\<close>), the selected location and the wall clock
  are inputs of the run.

  Python floats (\<open>ph\<close> and \<open>turbidity\<close>) are binary64 numbers. A float is read as the
  real number it denotes, and every arithmetic operation on floats rounds its exact
  result to the nearest binary64 number (\<open>b64\<close> below). Python integers are \<open>int\<close>
  (\<open>tds\<close>, \<open>wqi\<close>), Python strings are \<open>string\<close>. The thresholds of \<open>classify\<close> are
  compared, never computed with, and comparisons of floats are exact.
\<close>

subsection \<open>Session state (lines 15--19)\<close>

text \<open>One entry of \<open>alert_log\<close>: the dictionary built at lines 150--156, by key.\<close>

record alert =
  Time :: string
  Location :: string
  pH :: real
  Turbidity :: real
  TDS :: int

record session_state =
  ph_history :: "real list"
  turb_history :: "real list"
  tds_history :: "int list"
  alert_log :: "alert list"

definition init_session_state :: session_state where
  "init_session_state =
     \<lparr>ph_history = [], turb_history = [], tds_history = [], alert_log = []\<rparr>"

subsection \<open>Binary64 arithmetic\<close>

text \<open>Rounding to the nearest integer, a tie going to the even neighbour.\<close>

definition round_half_even :: "real \<Rightarrow> int" where
  "round_half_even x =
     (let f = \<lfloor>x\<rfloor>; d = x - of_int f
      in if d < 1 / 2 then f else if 1 / 2 < d then f + 1
         else if even f then f else f + 1)"

text \<open>
  The binary64 numbers around \<open>x\<close> are the multiples of \<open>2 powi quantum_exp x\<close>: 53
  significant bits from the bit length of \<open>x\<close> down, and never finer than the subnormal
  spacing \<open>2 powi - 1074\<close>.
\<close>

definition quantum_exp :: "real \<Rightarrow> int" where
  "quantum_exp x = max (bitlen \<lfloor>\<bar>x\<bar> * 2 ^ 1074\<rfloor> - 1127) (- 1074)"

text \<open>
  The float nearest to a real number, as IEEE 754 round-to-nearest-even gives it. It is
  the value of a decimal literal, and the result of an operation when applied to the
  exact result. Overflow to infinity (from \<open>2 ^ 1024\<close> on) is left out: the sliders and
  random draws of lines 56--67 keep ph within [0, 14], turbidity within [0, 10] and tds
  within [0, 1200], so no value of the script reaches \<open>2 ^ 8\<close>.
\<close>

definition b64 :: "real \<Rightarrow> real" where
  "b64 x = of_int (round_half_even (x / 2 powi quantum_exp x)) * 2 powi quantum_exp x"

text \<open>\<open>x + y\<close>, \<open>x - y\<close> and \<open>x * y\<close> on floats; an \<open>int\<close> operand is converted first.\<close>

definition fadd :: "real \<Rightarrow> real \<Rightarrow> real" where
  "fadd x y = b64 (x + y)"

definition fsub :: "real \<Rightarrow> real \<Rightarrow> real" where
  "fsub x y = b64 (x - y)"

definition fmul :: "real \<Rightarrow> real \<Rightarrow> real" where
  "fmul x y = b64 (x * y)"

text \<open>\<open>a / b\<close> on two Python integers: the float nearest to the exact quotient.\<close>

definition int_truediv :: "int \<Rightarrow> int \<Rightarrow> real" where
  "int_truediv a b = b64 (real_of_int a / real_of_int b)"

subsection \<open>Python list slicing and float truncation\<close>

text \<open>
  \<open>xs[i:]\<close>: a negative start counts from the end and is clipped at the start of the
  list; a start beyond the end gives the empty list.
\<close>

definition slice_from :: "'a list \<Rightarrow> int \<Rightarrow> 'a list" where
  "slice_from xs i =
     (let n = int (length xs);
          s = (if i < 0 then max 0 (n + i) else min i n)
      in drop (nat s) xs)"

text \<open>\<open>int(x)\<close> on a float: the fractional part is cut off, towards zero.\<close>

definition py_int :: "real \<Rightarrow> int" where
  "py_int x = (if 0 \<le> x then \<lfloor>x\<rfloor> else \<lceil>x\<rceil>)"

subsection \<open>Store history (lines 70--76)\<close>

definition append_reading :: "session_state \<Rightarrow> real \<Rightarrow> real \<Rightarrow> int \<Rightarrow> session_state" where
  "append_reading st ph turbidity tds =
     st\<lparr>ph_history := slice_from (ph_history st @ [ph]) (- 10),
        turb_history := slice_from (turb_history st @ [turbidity]) (- 10),
        tds_history := slice_from (tds_history st @ [tds]) (- 10)\<rparr>"

subsection \<open>Quality logic (lines 79--85)\<close>

definition classify :: "real \<Rightarrow> real \<Rightarrow> int \<Rightarrow> string" where
  "classify ph turb tds =
     (if 6.5 \<le> ph \<and> ph \<le> 8.5 \<and> turb < 3 \<and> tds \<le> 600 then ''Safe''
      else if turb \<le> 5 \<and> tds \<le> 900 then ''Moderate''
      else ''Unsafe'')"

subsection \<open>Water quality index (lines 90--92)\<close>

text \<open>
  The sum is evaluated left to right, each operation rounding: \<open>abs\<close> is exact, and
  \<open>tds / 50\<close> divides two integers.
\<close>

definition wqi :: "real \<Rightarrow> real \<Rightarrow> int \<Rightarrow> int" where
  "wqi ph turbidity tds =
     max 0 (min 100 (py_int
       (fsub 100 (fadd (fadd (fmul \<bar>fsub 7 ph\<bar> 10) (fmul turbidity 8))
          (int_truediv tds 50)))))"

subsection \<open>Alert tab (lines 149--156)\<close>

text \<open>\<open>now\<close> is the text \<open>datetime.now().strftime("%H:%M:%S")\<close> of the run.\<close>

definition maybe_log_alert ::
  "session_state \<Rightarrow> string \<Rightarrow> string \<Rightarrow> string \<Rightarrow> real \<Rightarrow> real \<Rightarrow> int \<Rightarrow> session_state" where
  "maybe_log_alert st status now location ph turbidity tds =
     (if status = ''Unsafe''
      then st\<lparr>alert_log := alert_log st @
             [\<lparr>Time = now, Location = location, pH = ph,
               Turbidity = turbidity, TDS = tds\<rparr>]\<rparr>
      else st)"

subsection \<open>The index as the specification words it\<close>

text \<open>
  The specification's formula in exact real arithmetic, kept apart from \<open>wqi\<close> to be
  compared with it: the raw value is floored and then clamped into [0, 100].
\<close>

definition clamp :: "int \<Rightarrow> int \<Rightarrow> int \<Rightarrow> int" where
  "clamp x lo hi = (if x < lo then lo else if hi < x then hi else x)"

definition score_spec :: "real \<Rightarrow> real \<Rightarrow> int \<Rightarrow> int" where
  "score_spec ph turbidity tds =
     clamp \<lfloor>100 - (\<bar>7 - ph\<bar> * 10 + turbidity * 8 + real_of_int tds / 50)\<rfloor> 0 100"

text \<open>The same formula with every operation rounded as the floats of the program round.\<close>

definition score_b64 :: "real \<Rightarrow> real \<Rightarrow> int \<Rightarrow> int" where
  "score_b64 ph turbidity tds =
     clamp \<lfloor>fsub 100 (fadd (fadd (fmul \<bar>fsub 7 ph\<bar> 10) (fmul turbidity 8))
       (int_truediv tds 50))\<rfloor> 0 100"

subsection \<open>One run of the script\<close>

text \<open>
  The order of the script: the reading is stored, classified and scored, and the alert
  tab logs it when it is unsafe. The result is the new session state with the status and
  the index that the dashboard shows.
\<close>

definition run ::
  "session_state \<Rightarrow> string \<Rightarrow> string \<Rightarrow> real \<Rightarrow> real \<Rightarrow> int \<Rightarrow> session_state \<times> string \<times> int" where
  "run st now location ph turbidity tds =
     (let st1 = append_reading st ph turbidity tds;
          status = classify ph turbidity tds;
          w = wqi ph turbidity tds
      in (maybe_log_alert st1 status now location ph turbidity tds, status, w))"

subsection \<open>Consecutive readings\<close>

text \<open>
  Lines 70--76 executed once for each reading (ph, turbidity, tds) of a list, oldest
  first.
\<close>

fun append_readings :: "session_state \<Rightarrow> (real \<times> real \<times> int) list \<Rightarrow> session_state" where
  "append_readings st [] = st"
| "append_readings st ((ph, turbidity, tds) # rs) =
     append_readings (append_reading st ph turbidity tds) rs"

text \<open>Fifteen distinct readings, numbered by their last digits.\<close>

definition fifteen_readings :: "(real \<times> real \<times> int) list" where
  "fifteen_readings =
     [(7.01, 0.1, 101), (7.02, 0.2, 102), (7.03, 0.3, 103), (7.04, 0.4, 104),
      (7.05, 0.5, 105), (7.06, 0.6, 106), (7.07, 0.7, 107), (7.08, 0.8, 108),
      (7.09, 0.9, 109), (7.10, 1.0, 110), (7.11, 1.1, 111), (7.12, 1.2, 112),
      (7.13, 1.3, 113), (7.14, 1.4, 114), (7.15, 1.5, 115)]"

section \<open>Properties\<close>

subsection \<open>Classification\<close>

text \<open>
  C1. The bands are tried in order and the first that matches wins: the result is Safe
  exactly when 6.5 \<le> ph \<le> 8.5, turbidity < 3 and tds \<le> 600; failing that it is
  Moderate exactly when turbidity \<le> 5 and tds \<le> 900; failing both it is Unsafe.
\<close>

theorem classify_bands_in_order:
  "(classify ph turb tds = ''Safe''
      \<longleftrightarrow> 6.5 \<le> ph \<and> ph \<le> 8.5 \<and> turb < 3 \<and> tds \<le> 600)
   \<and> (\<not> (6.5 \<le> ph \<and> ph \<le> 8.5 \<and> turb < 3 \<and> tds \<le> 600)
      \<longrightarrow> (classify ph turb tds = ''Moderate'' \<longleftrightarrow> turb \<le> 5 \<and> tds \<le> 900))
   \<and> (\<not> (6.5 \<le> ph \<and> ph \<le> 8.5 \<and> turb < 3 \<and> tds \<le> 600)
      \<and> \<not> (turb \<le> 5 \<and> tds \<le> 900)
      \<longrightarrow> classify ph turb tds = ''Unsafe'')"
  by (simp add: classify_def)

theorem classify_bands_in_order_witness:
  "classify 7.2 2 350 = ''Safe''
   \<and> \<not> (6.5 \<le> (9::real) \<and> (9::real) \<le> 8.5 \<and> (2::real) < 3 \<and> (350::int) \<le> 600)
   \<and> classify 9 2 350 = ''Moderate''
   \<and> \<not> ((9::real) \<le> 5 \<and> (1000::int) \<le> 900)
   \<and> classify 4 9 1000 = ''Unsafe''"
  using classify_bands_in_order [of "7.2" 2 350]
    classify_bands_in_order [of 9 2 350]
    classify_bands_in_order [of 4 9 1000]
  by simp

text \<open>
  C5. A reading whose turbidity is exactly 3, with ph within [6.5, 8.5] and tds at most
  600, is classified Moderate and not Safe: the Safe band asks for turbidity strictly
  below 3.
\<close>

theorem classify_turbidity_3_moderate:
  assumes "turb = 3" and "6.5 \<le> ph" and "ph \<le> 8.5" and "tds \<le> 600"
  shows "classify ph turb tds = ''Moderate'' \<and> classify ph turb tds \<noteq> ''Safe''"
  using assms by (simp add: classify_def)

theorem classify_turbidity_3_moderate_witness:
  "(3::real) = 3 \<and> 6.5 \<le> (7.2::real) \<and> (7.2::real) \<le> 8.5 \<and> (350::int) \<le> 600
   \<and> classify 7.2 3 350 = ''Moderate'' \<and> classify 7.2 3 350 \<noteq> ''Safe''"
  using classify_turbidity_3_moderate [of 3 "7.2" 350] by simp

text \<open>
  C6. A reading with turbidity above 5 or tds above 900 is classified Unsafe. Such a
  reading is never in the Safe band, so the proviso "not already Safe" holds by itself.
\<close>

theorem classify_unsafe_above_limits:
  assumes "5 < turb \<or> 900 < tds"
  shows "classify ph turb tds = ''Unsafe''"
  using assms by (auto simp add: classify_def)

theorem classify_unsafe_above_limits_witness:
  "((5::real) < 5.01 \<or> (900::int) < 100) \<and> classify 7 5.01 100 = ''Unsafe''
   \<and> ((5::real) < 0 \<or> (900::int) < 901) \<and> classify 7 0 901 = ''Unsafe''"
  using classify_unsafe_above_limits [of "5.01" 100 7]
    classify_unsafe_above_limits [of 0 901 7]
  by simp

text \<open>
  C10. The ph value alone never makes a reading Unsafe: with turbidity at most 5 and tds
  at most 900 the result is Safe or Moderate whatever the ph, and the result is Unsafe
  exactly when turbidity exceeds 5 or tds exceeds 900.
\<close>

theorem classify_unsafe_independent_of_ph:
  "(turb \<le> 5 \<and> tds \<le> 900
      \<longrightarrow> classify ph turb tds = ''Safe'' \<or> classify ph turb tds = ''Moderate'')
   \<and> (classify ph turb tds = ''Unsafe'' \<longleftrightarrow> 5 < turb \<or> 900 < tds)"
  by (auto simp add: classify_def)

theorem classify_unsafe_independent_of_ph_witness:
  "(5::real) \<le> 5 \<and> (900::int) \<le> 900
   \<and> (classify 0 5 900 = ''Safe'' \<or> classify 0 5 900 = ''Moderate'')
   \<and> (classify 14 5 900 = ''Safe'' \<or> classify 14 5 900 = ''Moderate'')
   \<and> classify 0 5 900 \<noteq> ''Unsafe'' \<and> classify 14 5 900 \<noteq> ''Unsafe''
   \<and> classify 7 5.5 900 = ''Unsafe''"
  using classify_unsafe_independent_of_ph [of 5 900 0]
    classify_unsafe_independent_of_ph [of 5 900 14]
    classify_unsafe_independent_of_ph [of "5.5" 900 7]
  by simp

subsection \<open>Binary64 rounding\<close>

text \<open>
  Rounding keeps the order and the sign, and leaves integers below \<open>2 ^ 53\<close> as they
  are. \<open>b64_eval\<close> computes it at a value between two known powers of 2.
\<close>

lemma round_half_even_cases:
  "round_half_even x = \<lfloor>x\<rfloor> \<and> x - of_int \<lfloor>x\<rfloor> \<le> 1 / 2
   \<or> round_half_even x = \<lfloor>x\<rfloor> + 1 \<and> 1 / 2 \<le> x - of_int \<lfloor>x\<rfloor>"
  by (auto simp add: round_half_even_def Let_def)

lemma round_half_even_of_int: "round_half_even (of_int k) = k"
  by (simp add: round_half_even_def)

lemma round_half_even_mono:
  assumes "x \<le> y"
  shows "round_half_even x \<le> round_half_even y"
proof (cases "\<lfloor>x\<rfloor> = \<lfloor>y\<rfloor>")
  case True
  with assms show ?thesis
    by (auto simp add: round_half_even_def Let_def)
next
  case False
  with assms have "\<lfloor>x\<rfloor> + 1 \<le> \<lfloor>y\<rfloor>"
    using floor_mono [of x y] by linarith
  moreover have "round_half_even x \<le> \<lfloor>x\<rfloor> + 1"
    using round_half_even_cases [of x] by linarith
  moreover have "\<lfloor>y\<rfloor> \<le> round_half_even y"
    using round_half_even_cases [of y] by linarith
  ultimately show ?thesis by linarith
qed

lemma round_half_even_minus: "round_half_even (- x) = - round_half_even x"
proof (cases "x = of_int \<lfloor>x\<rfloor>")
  case True
  then obtain k where "x = of_int k" ..
  then have "- x = of_int (- k)" by simp
  then show ?thesis
    using round_half_even_of_int [of "- k"] round_half_even_of_int [of k] \<open>x = of_int k\<close>
    by simp
next
  case False
  then have fl: "\<lfloor>- x\<rfloor> = - \<lfloor>x\<rfloor> - 1"
    by (simp add: floor_eq_iff) linarith
  show ?thesis
    unfolding round_half_even_def Let_def fl
    by (auto simp add: algebra_simps)
qed


lemma bitlen_mono: "n \<le> n' \<Longrightarrow> bitlen n \<le> bitlen n'"
proof -
  assume le: "n \<le> n'"
  have "n' < 2 ^ nat (bitlen n')"
    using bitlen_le_iff_power [of n' "bitlen n'"] by simp
  with le have "n < 2 ^ nat (bitlen n')" by linarith
  then show ?thesis
    using bitlen_le_iff_power [of n "bitlen n'"] bitlen_nonneg [of n'] by simp
qed

lemma quantum_exp_minus: "quantum_exp (- x) = quantum_exp x"
  by (simp add: quantum_exp_def)

lemma quantum_exp_abs: "quantum_exp \<bar>x\<bar> = quantum_exp x"
  by (simp add: quantum_exp_def)

lemma quantum_exp_mono: "\<bar>x\<bar> \<le> \<bar>y\<bar> \<Longrightarrow> quantum_exp x \<le> quantum_exp y"
proof -
  assume "\<bar>x\<bar> \<le> \<bar>y\<bar>"
  then have "\<lfloor>\<bar>x\<bar> * 2 ^ 1074\<rfloor> \<le> \<lfloor>\<bar>y\<bar> * 2 ^ 1074\<rfloor>"
    by (intro floor_mono) simp
  then have "bitlen \<lfloor>\<bar>x\<bar> * 2 ^ 1074\<rfloor> \<le> bitlen \<lfloor>\<bar>y\<bar> * 2 ^ 1074\<rfloor>"
    by (rule bitlen_mono)
  then show ?thesis by (simp add: quantum_exp_def)
qed

lemma quantum_exp_ge: "- 1074 \<le> quantum_exp x"
  by (simp add: quantum_exp_def)

lemma scaled_floor_upper:
  fixes a :: real
  assumes "\<lfloor>a * 2 ^ N\<rfloor> < (2::int) ^ k"
  shows "a < 2 powi (int k - int N)"
proof -
  from assms have "a * 2 ^ N < real_of_int (2 ^ k)"
    by (simp only: floor_less_iff)
  then have "a * 2 ^ N < 2 ^ k" by simp
  then have "a < 2 ^ k / 2 ^ N"
    by (simp add: pos_less_divide_eq)
  also have "\<dots> = 2 powi (int k - int N)"
    by (simp add: power_int_diff)
  finally show ?thesis .
qed

lemma scaled_floor_lower:
  fixes a :: real
  assumes "(2::int) ^ k \<le> \<lfloor>a * 2 ^ N\<rfloor>"
  shows "2 powi (int k - int N) \<le> a"
proof -
  from assms have "real_of_int (2 ^ k) \<le> a * 2 ^ N"
    by (simp only: le_floor_iff)
  then have "2 ^ k \<le> a * 2 ^ N" by simp
  then have "2 ^ k / 2 ^ N \<le> a"
    by (simp add: pos_divide_le_eq)
  moreover have "(2::real) ^ k / 2 ^ N = 2 powi (int k - int N)"
    by (simp add: power_int_diff)
  ultimately show ?thesis by simp
qed

lemma quantum_exp_upper: "\<bar>x\<bar> < 2 powi (quantum_exp x + 53)"
proof -
  define n where "n = \<lfloor>\<bar>x\<bar> * 2 ^ 1074\<rfloor>"
  define b where "b = bitlen n"
  have b0: "0 \<le> b" by (simp add: b_def bitlen_nonneg)
  have "n < 2 ^ nat b"
    using bitlen_le_iff_power [of n b] by (simp add: b_def)
  then have "\<bar>x\<bar> < 2 powi (int (nat b) - int 1074)"
    unfolding n_def by (rule scaled_floor_upper)
  also have "int (nat b) - int 1074 = b - 1074"
    using b0 by simp
  also have "(2::real) powi (b - 1074) \<le> 2 powi (quantum_exp x + 53)"
    by (intro power_int_increasing) (simp_all add: quantum_exp_def b_def n_def)
  finally show ?thesis .
qed

lemma quantum_exp_lower:
  assumes "- 1074 < quantum_exp x"
  shows "2 powi (quantum_exp x + 52) \<le> \<bar>x\<bar>"
proof -
  define n where "n = \<lfloor>\<bar>x\<bar> * 2 ^ 1074\<rfloor>"
  define b where "b = bitlen n"
  from assms have q: "quantum_exp x = b - 1127" and b: "53 < b"
    by (simp_all add: quantum_exp_def b_def n_def max_def split: if_splits)
  have "2 ^ (nat b - 1) \<le> n"
    using bitlen_ge_iff_power [of b n] b by (simp add: b_def)
  then have "2 powi (int (nat b - 1) - int 1074) \<le> \<bar>x\<bar>"
    unfolding n_def by (rule scaled_floor_lower)
  moreover have "int (nat b - 1) - int 1074 = quantum_exp x + 52"
    using b by (simp add: q)
  ultimately show ?thesis by (simp only:)
qed

text \<open>The spacing at a value between two known powers of 2.\<close>

lemma quantum_exp_eq:
  assumes lo: "2 powi e \<le> \<bar>x\<bar>" and hi: "\<bar>x\<bar> < 2 powi (e + 1)" and e: "- 1022 \<le> e"
  shows "quantum_exp x = e - 52"
proof -
  have "(2::real) powi e < 2 powi (quantum_exp x + 53)"
    using lo quantum_exp_upper [of x] by linarith
  then have "e < quantum_exp x + 53"
    using power_int_increasing [of "quantum_exp x + 53" e "2::real"] by (cases "e < quantum_exp x + 53") auto
  then have ge: "e - 52 \<le> quantum_exp x" by simp
  have "quantum_exp x \<le> e - 52"
  proof (rule ccontr)
    assume "\<not> quantum_exp x \<le> e - 52"
    then have gt: "e - 52 < quantum_exp x" by simp
    with e have "- 1074 < quantum_exp x" by simp
    then have "2 powi (quantum_exp x + 52) \<le> \<bar>x\<bar>" by (rule quantum_exp_lower)
    with hi have "(2::real) powi (quantum_exp x + 52) < 2 powi (e + 1)" by linarith
    moreover have "(2::real) powi (e + 1) \<le> 2 powi (quantum_exp x + 52)"
      using gt by (intro power_int_increasing) simp_all
    ultimately show False by linarith
  qed
  with ge show ?thesis by simp
qed


lemma b64_minus: "b64 (- x) = - b64 x"
  by (simp add: b64_def quantum_exp_minus round_half_even_minus)

lemma b64_nonneg:
  assumes "0 \<le> x"
  shows "0 \<le> b64 x"
proof -
  have "0 \<le> x / 2 powi quantum_exp x" using assms by simp
  then have "round_half_even (real_of_int 0) \<le> round_half_even (x / 2 powi quantum_exp x)"
    by (intro round_half_even_mono) simp
  then have "0 \<le> round_half_even (x / 2 powi quantum_exp x)"
    by (simp only: round_half_even_of_int)
  then show ?thesis by (simp add: b64_def)
qed

lemma b64_upper:
  assumes "0 \<le> x"
  shows "b64 x \<le> 2 powi (quantum_exp x + 53)"
proof -
  define q where "q = quantum_exp x"
  have pos: "(0::real) < 2 powi q" by (simp add: power_int_def)
  have "x < 2 powi (q + 53)"
    using quantum_exp_upper [of x] assms by (simp add: q_def)
  also have "(2::real) powi (q + 53) = 2 ^ 53 * 2 powi q"
    by (simp add: power_int_add)
  finally have "x / 2 powi q \<le> 2 ^ 53"
    using pos by (simp add: pos_divide_le_eq)
  then have "x / 2 powi q \<le> real_of_int (2 ^ 53)" by simp
  then have "round_half_even (x / 2 powi q) \<le> round_half_even (real_of_int (2 ^ 53))"
    by (rule round_half_even_mono)
  then have "round_half_even (x / 2 powi q) \<le> 2 ^ 53"
    by (simp only: round_half_even_of_int)
  then have "real_of_int (round_half_even (x / 2 powi q)) \<le> 2 ^ 53"
    using of_int_le_iff [of "round_half_even (x / 2 powi q)" "2 ^ 53", where ?'a = real] by simp
  then have "real_of_int (round_half_even (x / 2 powi q)) * 2 powi q \<le> 2 ^ 53 * 2 powi q"
    using pos by (simp only: mult_le_cancel_right_pos)
  then show ?thesis
    by (simp add: b64_def q_def [symmetric] power_int_add)
qed

lemma b64_lower:
  assumes "0 \<le> x" and "- 1074 < quantum_exp x"
  shows "2 powi (quantum_exp x + 52) \<le> b64 x"
proof -
  define q where "q = quantum_exp x"
  have pos: "(0::real) < 2 powi q" by (simp add: power_int_def)
  have "2 powi (q + 52) \<le> x"
    using quantum_exp_lower [of x] assms by (simp add: q_def)
  moreover have "(2::real) powi (q + 52) = 2 ^ 52 * 2 powi q"
    by (simp add: power_int_add)
  ultimately have "2 ^ 52 \<le> x / 2 powi q"
    using pos by (simp add: pos_le_divide_eq)
  then have "real_of_int (2 ^ 52) \<le> x / 2 powi q" by simp
  then have "round_half_even (real_of_int (2 ^ 52)) \<le> round_half_even (x / 2 powi q)"
    by (rule round_half_even_mono)
  then have "2 ^ 52 \<le> round_half_even (x / 2 powi q)"
    by (simp only: round_half_even_of_int)
  then have "2 ^ 52 \<le> real_of_int (round_half_even (x / 2 powi q))"
    using of_int_le_iff [of "2 ^ 52" "round_half_even (x / 2 powi q)", where ?'a = real] by simp
  then have "2 ^ 52 * 2 powi q \<le> real_of_int (round_half_even (x / 2 powi q)) * 2 powi q"
    using pos by (simp only: mult_le_cancel_right_pos)
  then show ?thesis
    by (simp add: b64_def q_def [symmetric] power_int_add)
qed

lemma b64_mono_nonneg:
  assumes "0 \<le> x" and "x \<le> y"
  shows "b64 x \<le> b64 y"
proof -
  from assms have y0: "0 \<le> y" by simp
  have qle: "quantum_exp x \<le> quantum_exp y"
    using assms by (intro quantum_exp_mono) simp
  show ?thesis
  proof (cases "quantum_exp x = quantum_exp y")
    case True
    have pos: "(0::real) < 2 powi quantum_exp y" by (simp add: power_int_def)
    have "x / 2 powi quantum_exp y \<le> y / 2 powi quantum_exp y"
      using assms pos by (simp add: divide_right_mono)
    then have "round_half_even (x / 2 powi quantum_exp y)
        \<le> round_half_even (y / 2 powi quantum_exp y)"
      by (rule round_half_even_mono)
    then have "real_of_int (round_half_even (x / 2 powi quantum_exp y)) * 2 powi quantum_exp y
        \<le> real_of_int (round_half_even (y / 2 powi quantum_exp y)) * 2 powi quantum_exp y"
      using pos by (simp only: mult_le_cancel_right_pos of_int_le_iff)
    then show ?thesis by (simp add: b64_def True)
  next
    case False
    with qle have lt: "quantum_exp x + 53 \<le> quantum_exp y + 52" by simp
    from False qle quantum_exp_ge [of x] have "- 1074 < quantum_exp y" by linarith
    with y0 have "2 powi (quantum_exp y + 52) \<le> b64 y" by (rule b64_lower)
    moreover have "b64 x \<le> 2 powi (quantum_exp x + 53)"
      using assms(1) by (rule b64_upper)
    moreover have "(2::real) powi (quantum_exp x + 53) \<le> 2 powi (quantum_exp y + 52)"
      using lt by (intro power_int_increasing) simp_all
    ultimately show ?thesis by linarith
  qed
qed

lemma b64_mono:
  assumes "x \<le> y"
  shows "b64 x \<le> b64 y"
proof -
  consider "0 \<le> x" | "x < 0" "0 \<le> y" | "y < 0" using assms by linarith
  then show ?thesis
  proof cases
    case 1
    then show ?thesis using assms by (rule b64_mono_nonneg)
  next
    case 2
    then have "0 \<le> b64 (- x)" and "0 \<le> b64 y"
      by (simp_all add: b64_nonneg)
    then show ?thesis by (simp add: b64_minus)
  next
    case 3
    with assms have "b64 (- y) \<le> b64 (- x)"
      by (intro b64_mono_nonneg) simp_all
    then show ?thesis by (simp add: b64_minus)
  qed
qed

lemma b64_abs: "\<bar>b64 x\<bar> = b64 \<bar>x\<bar>"
proof (cases "0 \<le> x")
  case True
  then show ?thesis by (simp add: b64_nonneg)
next
  case False
  then have "0 \<le> b64 (- x)" by (simp add: b64_nonneg)
  with False show ?thesis by (simp add: b64_minus)
qed

lemma b64_eval:
  assumes "2 powi e \<le> \<bar>x\<bar>" and "\<bar>x\<bar> < 2 powi (e + 1)" and "- 1022 \<le> e"
  shows "b64 x = of_int (round_half_even (x / 2 powi (e - 52))) * 2 powi (e - 52)"
  using quantum_exp_eq [OF assms] by (simp add: b64_def)


lemma b64_of_int:
  assumes "\<bar>k\<bar> < 2 ^ 53"
  shows "b64 (of_int k) = of_int k"
proof -
  define q where "q = quantum_exp (of_int k)"
  have q0: "q \<le> 0"
  proof (rule ccontr)
    assume "\<not> q \<le> 0"
    then have pos: "0 < q" by simp
    then have "2 powi (q + 52) \<le> \<bar>real_of_int k\<bar>"
      using quantum_exp_lower [of "of_int k"] by (simp add: q_def)
    moreover have "(2::real) powi 53 \<le> 2 powi (q + 52)"
      using pos by (intro power_int_increasing) simp_all
    ultimately have "real_of_int (2 ^ 53) \<le> real_of_int \<bar>k\<bar>" by simp
    then have "2 ^ 53 \<le> \<bar>k\<bar>" by (simp only: of_int_le_iff)
    with assms show False by simp
  qed
  define j where "j = nat (- q)"
  have "(2::real) powi q = 1 / 2 powi (- q)"
    using power_int_minus_divide [of "2::real" "- q"] by simp
  moreover have "(2::real) powi (- q) = 2 ^ j"
    using q0 unfolding j_def by (intro power_int_nonneg_exp) simp
  ultimately have pw: "(2::real) powi q = 1 / 2 ^ j" by (simp only:)
  have "real_of_int k / 2 powi q = real_of_int (k * 2 ^ j)"
    by (simp add: pw)
  then have "round_half_even (real_of_int k / 2 powi q) = k * 2 ^ j"
    by (simp only: round_half_even_of_int)
  then show ?thesis
    by (simp add: b64_def q_def [symmetric] pw)
qed

lemma b64_numeral [simp]:
  "numeral n < (2::int) ^ 53 \<Longrightarrow> b64 (numeral n) = numeral n"
  using b64_of_int [of "numeral n"] by simp

lemma b64_neg_numeral [simp]:
  "numeral n < (2::int) ^ 53 \<Longrightarrow> b64 (- numeral n) = - numeral n"
  using b64_of_int [of "- numeral n"] by simp

lemma b64_0 [simp]: "b64 0 = 0"
  using b64_of_int [of 0] by simp

lemma b64_1 [simp]: "b64 1 = 1"
  using b64_of_int [of 1] by simp

subsection \<open>Water quality index\<close>

text \<open>Cutting the fraction off towards zero keeps the order of the reals.\<close>

lemma py_int_mono: "x \<le> y \<Longrightarrow> py_int x \<le> py_int y"
proof -
  assume le: "x \<le> y"
  consider "0 \<le> x" | "x < 0" "0 \<le> y" | "y < 0" using le by linarith
  then show ?thesis
  proof cases
    case 1
    with le show ?thesis by (simp add: py_int_def floor_mono)
  next
    case 2
    then have bounds: "\<lceil>x\<rceil> \<le> 0" "0 \<le> \<lfloor>y\<rfloor>"
      by (simp_all add: ceiling_le_iff)
    from 2 have "py_int x = \<lceil>x\<rceil>" and "py_int y = \<lfloor>y\<rfloor>"
      by (simp_all add: py_int_def)
    with bounds show ?thesis by linarith
  next
    case 3
    with le show ?thesis by (simp add: py_int_def ceiling_mono)
  qed
qed

text \<open>
  \<open>int\<close> rounds a negative value up where the floor rounds it down, but both results
  are then at most 0 and the clamp sends them to 0.
\<close>

lemma py_int_is_not_floor: "py_int (- 1 / 2) = 0 \<and> \<lfloor>- 1 / 2 :: real\<rfloor> = - 1"
  by (simp add: py_int_def ceiling_eq_iff floor_eq_iff)

lemma clamp_py_int_floor: "max 0 (min 100 (py_int x)) = clamp \<lfloor>x\<rfloor> 0 100"
proof (cases "0 \<le> x")
  case True
  then show ?thesis by (simp add: py_int_def clamp_def)
next
  case False
  then have "\<lceil>x\<rceil> \<le> 0" and "\<lfloor>x\<rfloor> < 0"
    by (simp_all add: ceiling_le_iff floor_less_iff)
  with False show ?thesis by (simp add: py_int_def clamp_def)
qed

text \<open>Every operation of the sum keeps the order, rounding included.\<close>

lemma wqi_antimono:
  assumes ph: "\<bar>7 - ph\<bar> \<le> \<bar>7 - ph'\<bar>" and t: "t \<le> t'" and d: "d \<le> d'"
  shows "wqi ph' t' d' \<le> wqi ph t d"
proof -
  have "\<bar>fsub 7 ph\<bar> \<le> \<bar>fsub 7 ph'\<bar>"
    unfolding fsub_def b64_abs using ph by (rule b64_mono)
  then have a: "fmul \<bar>fsub 7 ph\<bar> 10 \<le> fmul \<bar>fsub 7 ph'\<bar> 10"
    unfolding fmul_def by (intro b64_mono) simp
  have b: "fmul t 8 \<le> fmul t' 8"
    unfolding fmul_def using t by (intro b64_mono) simp
  have c: "int_truediv d 50 \<le> int_truediv d' 50"
    unfolding int_truediv_def using d by (intro b64_mono) (simp add: divide_right_mono)
  have "fadd (fmul \<bar>fsub 7 ph\<bar> 10) (fmul t 8) \<le> fadd (fmul \<bar>fsub 7 ph'\<bar> 10) (fmul t' 8)"
    unfolding fadd_def using a b by (intro b64_mono) simp
  with c have "fadd (fadd (fmul \<bar>fsub 7 ph\<bar> 10) (fmul t 8)) (int_truediv d 50)
      \<le> fadd (fadd (fmul \<bar>fsub 7 ph'\<bar> 10) (fmul t' 8)) (int_truediv d' 50)"
    unfolding fadd_def [of "fadd _ _"] by (intro b64_mono) simp
  then have "fsub 100 (fadd (fadd (fmul \<bar>fsub 7 ph'\<bar> 10) (fmul t' 8)) (int_truediv d' 50))
      \<le> fsub 100 (fadd (fadd (fmul \<bar>fsub 7 ph\<bar> 10) (fmul t 8)) (int_truediv d 50))"
    unfolding fsub_def [of 100] by (intro b64_mono) simp
  then have "py_int (fsub 100 (fadd (fadd (fmul \<bar>fsub 7 ph'\<bar> 10) (fmul t' 8)) (int_truediv d' 50)))
      \<le> py_int (fsub 100 (fadd (fadd (fmul \<bar>fsub 7 ph\<bar> 10) (fmul t 8)) (int_truediv d 50)))"
    by (rule py_int_mono)
  then show ?thesis by (simp add: wqi_def)
qed

text \<open>
  The floats of the demo sliders at (2.02, 0.15, 0), operation by operation: the
  rounded sum is a little above 51, so the index is 48.
\<close>

lemma wqi_slider_reading: "wqi (b64 2.02) (b64 0.15) 0 = 48"
proof -
  have ph: "b64 2.02 = 4548635623644201 / 2251799813685248"
    using b64_eval [of "1" "2.02"] by (simp add: round_half_even_def)
  have tu: "b64 0.15 = 5404319552844595 / 36028797018963968"
    using b64_eval [of "- 3" "0.15"] by (simp add: round_half_even_def)
  have s1: "fsub 7 (4548635623644201 / 2251799813685248) = 1401745384019067 / 281474976710656"
    unfolding fsub_def
    using b64_eval [of "2" "7 - (4548635623644201 / 2251799813685248)"] by (simp add: round_half_even_def)
  have ab: "\<bar>1401745384019067 / 281474976710656 :: real\<bar> = 1401745384019067 / 281474976710656"
    by simp
  have m1: "fmul (1401745384019067 / 281474976710656) 10 = 7008726920095335 / 140737488355328"
    unfolding fmul_def
    using b64_eval [of "5" "(1401745384019067 / 281474976710656) * 10"] by (simp add: round_half_even_def)
  have m2: "fmul (5404319552844595 / 36028797018963968) 8 = 5404319552844595 / 4503599627370496"
    unfolding fmul_def
    using b64_eval [of "0" "(5404319552844595 / 36028797018963968) * 8"] by (simp add: round_half_even_def)
  have a1: "fadd (7008726920095335 / 140737488355328) (5404319552844595 / 4503599627370496) = 7177611906121729 / 140737488355328"
    unfolding fadd_def
    using b64_eval [of "5" "(7008726920095335 / 140737488355328) + (5404319552844595 / 4503599627370496)"] by (simp add: round_half_even_def)
  have dv: "int_truediv 0 50 = 0"
    by (simp add: int_truediv_def)
  have a2: "fadd (7177611906121729 / 140737488355328) 0 = 7177611906121729 / 140737488355328"
    unfolding fadd_def
    using b64_eval [of "5" "(7177611906121729 / 140737488355328) + 0"] by (simp add: round_half_even_def)
  have s2: "fsub 100 (7177611906121729 / 140737488355328) = 6896136929411071 / 140737488355328"
    unfolding fsub_def
    using b64_eval [of "5" "100 - (7177611906121729 / 140737488355328)"] by (simp add: round_half_even_def)
  have tr: "py_int (6896136929411071 / 140737488355328) = 48"
    by (simp add: py_int_def)
  have cl: "max (0::int) (min 100 48) = 48"
    by simp
  show ?thesis
    by (simp only: wqi_def ph tu s1 ab m1 m2 a1 dv a2 s2 tr cl)
qed

lemma score_spec_slider_reading:
  "score_spec (b64 2.02) (b64 0.15) 0 = 49 \<and> score_spec 2.02 0.15 0 = 49"
proof -
  have ph: "b64 2.02 = 4548635623644201 / 2251799813685248"
    using b64_eval [of "1" "2.02"] by (simp add: round_half_even_def)
  have tu: "b64 0.15 = 5404319552844595 / 36028797018963968"
    using b64_eval [of "- 3" "0.15"] by (simp add: round_half_even_def)
  show ?thesis
    unfolding ph tu by (simp add: score_spec_def clamp_def)
qed

text \<open>
  The default reading of the demo sliders, (7.2, 2.0, 350): the float 7.2 lies above
  the decimal, the first product is 2 + 2 powi - 49, and adding 16 is a tie that goes
  to the even 18.
\<close>

lemma wqi_default_reading: "wqi (b64 7.2) (b64 2.0) 350 = 75"
proof -
  have ph: "b64 7.2 = 8106479329266893 / 1125899906842624"
    using b64_eval [of "2" "7.2"] by (simp add: round_half_even_def)
  have tu: "b64 2.0 = 2"
    using b64_eval [of "1" "2.0"] by (simp add: round_half_even_def)
  have s1: "fsub 7 (8106479329266893 / 1125899906842624) = - (225179981368525 / 1125899906842624)"
    unfolding fsub_def
    using b64_eval [of "- 3" "7 - (8106479329266893 / 1125899906842624)"] by (simp add: round_half_even_def)
  have ab: "\<bar>- (225179981368525 / 1125899906842624) :: real\<bar> = 225179981368525 / 1125899906842624"
    by simp
  have m1: "fmul (225179981368525 / 1125899906842624) 10 = 1125899906842625 / 562949953421312"
    unfolding fmul_def
    using b64_eval [of "1" "(225179981368525 / 1125899906842624) * 10"] by (simp add: round_half_even_def)
  have m2: "fmul 2 8 = 16"
    unfolding fmul_def
    using b64_eval [of "4" "2 * 8"] by (simp add: round_half_even_def)
  have a1: "fadd (1125899906842625 / 562949953421312) 16 = 18"
    unfolding fadd_def
    using b64_eval [of "4" "(1125899906842625 / 562949953421312) + 16"] by (simp add: round_half_even_def)
  have dv: "int_truediv 350 50 = 7"
    unfolding int_truediv_def
    using b64_eval [of "2" "real_of_int 350 / real_of_int 50"] by (simp add: round_half_even_def)
  have a2: "fadd 18 7 = 25"
    unfolding fadd_def
    using b64_eval [of "4" "18 + 7"] by (simp add: round_half_even_def)
  have s2: "fsub 100 25 = 75"
    unfolding fsub_def
    using b64_eval [of "6" "100 - 25"] by (simp add: round_half_even_def)
  have tr: "py_int 75 = 75"
    by (simp add: py_int_def)
  have cl: "max (0::int) (min 100 75) = 75"
    by simp
  show ?thesis
    by (simp only: wqi_def ph tu s1 ab m1 m2 a1 dv a2 s2 tr cl)
qed

text \<open>A reading of the random mode, (6.5, 0.01, 146).\<close>

lemma wqi_random_reading: "wqi (b64 6.5) (b64 0.01) 146 = 92"
proof -
  have ph: "b64 6.5 = 13 / 2"
    using b64_eval [of "2" "6.5"] by (simp add: round_half_even_def)
  have tu: "b64 0.01 = 5764607523034235 / 576460752303423488"
    using b64_eval [of "- 7" "0.01"] by (simp add: round_half_even_def)
  have s1: "fsub 7 (13 / 2) = 1 / 2"
    unfolding fsub_def
    using b64_eval [of "- 1" "7 - (13 / 2)"] by (simp add: round_half_even_def)
  have ab: "\<bar>1 / 2 :: real\<bar> = 1 / 2"
    by simp
  have m1: "fmul (1 / 2) 10 = 5"
    unfolding fmul_def
    using b64_eval [of "2" "(1 / 2) * 10"] by (simp add: round_half_even_def)
  have m2: "fmul (5764607523034235 / 576460752303423488) 8 = 5764607523034235 / 72057594037927936"
    unfolding fmul_def
    using b64_eval [of "- 4" "(5764607523034235 / 576460752303423488) * 8"] by (simp add: round_half_even_def)
  have a1: "fadd 5 (5764607523034235 / 72057594037927936) = 2859785763380265 / 562949953421312"
    unfolding fadd_def
    using b64_eval [of "2" "5 + (5764607523034235 / 72057594037927936)"] by (simp add: round_half_even_def)
  have dv: "int_truediv 146 50 = 1643813863990231 / 562949953421312"
    unfolding int_truediv_def
    using b64_eval [of "1" "real_of_int 146 / real_of_int 50"] by (simp add: round_half_even_def)
  have a2: "fadd (2859785763380265 / 562949953421312) (1643813863990231 / 562949953421312) = 8"
    unfolding fadd_def
    using b64_eval [of "3" "(2859785763380265 / 562949953421312) + (1643813863990231 / 562949953421312)"] by (simp add: round_half_even_def)
  have s2: "fsub 100 8 = 92"
    unfolding fsub_def
    using b64_eval [of "6" "100 - 8"] by (simp add: round_half_even_def)
  have tr: "py_int 92 = 92"
    by (simp add: py_int_def)
  have cl: "max (0::int) (min 100 92) = 92"
    by simp
  show ?thesis
    by (simp only: wqi_def ph tu s1 ab m1 m2 a1 dv a2 s2 tr cl)
qed

text \<open>
  C2 as it is stated, with the formula in real arithmetic, fails. At the slider values
  ph 2.02, turbidity 0.15, tds 0 the program computes 48, and the formula gives 49,
  at the floats and at the decimals alike.
\<close>

theorem wqi_is_not_real_formula:
  "wqi (b64 2.02) (b64 0.15) 0 = 48
   \<and> score_spec (b64 2.02) (b64 0.15) 0 = 49
   \<and> score_spec 2.02 0.15 0 = 49
   \<and> wqi (b64 2.02) (b64 0.15) 0 \<noteq> score_spec (b64 2.02) (b64 0.15) 0"
  using wqi_slider_reading score_spec_slider_reading by simp

text \<open>
  C2, amended. The index equals clamp(floor(raw), 0, 100) for every reading, where raw =
  100 - (|7 - ph| * 10 + turbidity * 8 + tds / 50) is evaluated in binary64 floating
  point, left to right, each operation rounded to the nearest float with ties to even.
\<close>

theorem wqi_is_clamped_floor_b64: "wqi ph turbidity tds = score_b64 ph turbidity tds"
  by (simp add: wqi_def score_b64_def clamp_py_int_floor)

text \<open>
  C7. With the other two inputs fixed the index does not increase when |7 - ph| grows,
  when turbidity grows, or when tds grows.
\<close>

theorem wqi_monotone:
  "(\<bar>7 - ph\<bar> \<le> \<bar>7 - ph'\<bar> \<longrightarrow> wqi ph' turbidity tds \<le> wqi ph turbidity tds)
   \<and> (turbidity \<le> turbidity' \<longrightarrow> wqi ph turbidity' tds \<le> wqi ph turbidity tds)
   \<and> (tds \<le> tds' \<longrightarrow> wqi ph turbidity tds' \<le> wqi ph turbidity tds)"
  by (simp add: wqi_antimono)

theorem wqi_monotone_witness:
  "\<bar>7 - (7::real)\<bar> \<le> \<bar>7 - (8::real)\<bar> \<and> wqi 8 2 300 \<le> wqi 7 2 300
   \<and> (2::real) \<le> 5.1 \<and> wqi 7 5.1 300 \<le> wqi 7 2 300
   \<and> (300::int) \<le> 1000 \<and> wqi 7 2 1000 \<le> wqi 7 2 300"
  using wqi_monotone [of 7 8 2 300 "5.1" 1000] by simp

text \<open>
  C8. The index of the reading (7, 0, 0) is 100, and the index of every reading lies in
  [0, 100]; in particular for every real ph and every turbidity and tds that are not
  negative.
\<close>

theorem wqi_range:
  "wqi 7 0 0 = 100 \<and> 0 \<le> wqi ph turbidity tds \<and> wqi ph turbidity tds \<le> 100"
  by (simp add: wqi_def fsub_def fadd_def fmul_def int_truediv_def py_int_def)

text \<open>
  C9. The reading (ph 4.0, turbidity 9.0, tds 1000) is Unsafe with index 0, and the
  reading (ph 7.2, turbidity 2.0, tds 350) is Safe with index 75. The readings are the
  floats that these decimals denote in the program.
\<close>

theorem end_to_end_readings:
  "classify (b64 4.0) (b64 9.0) 1000 = ''Unsafe'' \<and> wqi (b64 4.0) (b64 9.0) 1000 = 0
   \<and> classify (b64 7.2) (b64 2.0) 350 = ''Safe'' \<and> wqi (b64 7.2) (b64 2.0) 350 = 75"
proof -
  have ph: "b64 7.2 = 8106479329266893 / 1125899906842624"
    using b64_eval [of 2 "7.2"] by (simp add: round_half_even_def)
  have "classify (b64 4.0) (b64 9.0) 1000 = ''Unsafe''"
    by (simp add: classify_def)
  moreover have "wqi (b64 4.0) (b64 9.0) 1000 = 0"
    by (simp add: wqi_def fsub_def fadd_def fmul_def int_truediv_def py_int_def)
  moreover have "classify (b64 7.2) (b64 2.0) 350 = ''Safe''"
    unfolding ph by (simp add: classify_def)
  moreover note wqi_default_reading
  ultimately show ?thesis by (simp only: simp_thms)
qed

subsection \<open>History\<close>

lemma slice_from_last_10: "slice_from xs (- 10) = drop (length xs - 10) xs"
  by (simp add: slice_from_def Let_def nat_diff_distrib' max_def)

lemma drop_last_10: "drop (length xs - 10) xs = rev (take 10 (rev xs))"
  by (simp add: take_rev)

text \<open>Truncating after every element gives what truncating once at the end gives.\<close>

lemma last_10_step:
  "drop (length (drop (length xs - 10) xs @ ys) - 10) (drop (length xs - 10) xs @ ys)
   = drop (length (xs @ ys) - 10) (xs @ ys)"
  by (cases "length xs \<le> 10") (auto simp add: add.commute)

lemma append_readings_histories:
  "ph_history (append_readings st rs) =
     (if rs = [] then ph_history st
      else slice_from (ph_history st @ map fst rs) (- 10))
   \<and> turb_history (append_readings st rs) =
     (if rs = [] then turb_history st
      else slice_from (turb_history st @ map (fst \<circ> snd) rs) (- 10))
   \<and> tds_history (append_readings st rs) =
     (if rs = [] then tds_history st
      else slice_from (tds_history st @ map (snd \<circ> snd) rs) (- 10))
   \<and> alert_log (append_readings st rs) = alert_log st"
proof (induction st rs rule: append_readings.induct)
  case (1 st)
  then show ?case by simp
next
  case (2 st ph turbidity tds rs)
  then show ?case
    using last_10_step [of "ph_history st @ [ph]" "map fst rs"]
      last_10_step [of "turb_history st @ [turbidity]" "map (fst \<circ> snd) rs"]
      last_10_step [of "tds_history st @ [tds]" "map (snd \<circ> snd) rs"]
    by (simp add: append_reading_def slice_from_last_10)
qed

text \<open>
  C4. Storing a reading puts its ph, turbidity and tds at the end of their lists and
  keeps the last 10 elements of each, dropping the oldest first. So 15 readings stored
  from the empty session state leave three lists of length exactly 10 that hold the
  components of readings 6 to 15, in the order they were stored.
\<close>

theorem history_keeps_last_10:
  "ph_history (append_reading st ph turbidity tds)
       = rev (take 10 (rev (ph_history st @ [ph])))
   \<and> turb_history (append_reading st ph turbidity tds)
       = rev (take 10 (rev (turb_history st @ [turbidity])))
   \<and> tds_history (append_reading st ph turbidity tds)
       = rev (take 10 (rev (tds_history st @ [tds])))
   \<and> (length rs = 15 \<longrightarrow>
        ph_history (append_readings init_session_state rs) = map fst (drop 5 rs)
      \<and> turb_history (append_readings init_session_state rs) = map (fst \<circ> snd) (drop 5 rs)
      \<and> tds_history (append_readings init_session_state rs) = map (snd \<circ> snd) (drop 5 rs)
      \<and> length (ph_history (append_readings init_session_state rs)) = 10
      \<and> length (turb_history (append_readings init_session_state rs)) = 10
      \<and> length (tds_history (append_readings init_session_state rs)) = 10)"
proof -
  have one:
    "ph_history (append_reading st ph turbidity tds)
       = rev (take 10 (rev (ph_history st @ [ph])))
     \<and> turb_history (append_reading st ph turbidity tds)
       = rev (take 10 (rev (turb_history st @ [turbidity])))
     \<and> tds_history (append_reading st ph turbidity tds)
       = rev (take 10 (rev (tds_history st @ [tds])))"
    unfolding append_reading_def slice_from_last_10 drop_last_10 by simp
  have many:
    "ph_history (append_readings init_session_state rs) = map fst (drop 5 rs)
     \<and> turb_history (append_readings init_session_state rs) = map (fst \<circ> snd) (drop 5 rs)
     \<and> tds_history (append_readings init_session_state rs) = map (snd \<circ> snd) (drop 5 rs)
     \<and> length (ph_history (append_readings init_session_state rs)) = 10
     \<and> length (turb_history (append_readings init_session_state rs)) = 10
     \<and> length (tds_history (append_readings init_session_state rs)) = 10"
    if "length rs = 15"
  proof -
    from that have "rs \<noteq> []" by auto
    with that show ?thesis
      using append_readings_histories [of init_session_state rs]
      by (simp add: init_session_state_def slice_from_last_10 drop_map)
  qed
  from one many show ?thesis by blast
qed

theorem history_keeps_last_10_witness:
  "length fifteen_readings = 15
   \<and> ph_history (append_readings init_session_state fifteen_readings)
       = [7.06, 7.07, 7.08, 7.09, 7.10, 7.11, 7.12, 7.13, 7.14, 7.15]
   \<and> turb_history (append_readings init_session_state fifteen_readings)
       = [0.6, 0.7, 0.8, 0.9, 1.0, 1.1, 1.2, 1.3, 1.4, 1.5]
   \<and> tds_history (append_readings init_session_state fifteen_readings)
       = [106, 107, 108, 109, 110, 111, 112, 113, 114, 115]"
  using history_keeps_last_10 [of init_session_state 0 0 0 fifteen_readings]
  by (simp add: fifteen_readings_def)

subsection \<open>Alert log\<close>

text \<open>
  C3. With the status Unsafe exactly one record, holding the given time, location, ph,
  turbidity and tds, is put at the end of the alert log; with the status Safe or
  Moderate the session state is left as it was. So three consecutive calls with the
  status Unsafe add exactly three records, in the order of the calls, equal or not.
\<close>

theorem maybe_log_alert_appends_iff_unsafe:
  "(status = ''Unsafe'' \<longrightarrow>
      maybe_log_alert st status now location ph turbidity tds
        = st\<lparr>alert_log := alert_log st @
            [\<lparr>Time = now, Location = location, pH = ph,
              Turbidity = turbidity, TDS = tds\<rparr>]\<rparr>)
   \<and> (status = ''Safe'' \<or> status = ''Moderate'' \<longrightarrow>
      maybe_log_alert st status now location ph turbidity tds = st)
   \<and> alert_log
        (maybe_log_alert
          (maybe_log_alert
            (maybe_log_alert st ''Unsafe'' now1 loc1 ph1 turb1 tds1)
            ''Unsafe'' now2 loc2 ph2 turb2 tds2)
          ''Unsafe'' now3 loc3 ph3 turb3 tds3)
      = alert_log st @
          [\<lparr>Time = now1, Location = loc1, pH = ph1, Turbidity = turb1, TDS = tds1\<rparr>,
           \<lparr>Time = now2, Location = loc2, pH = ph2, Turbidity = turb2, TDS = tds2\<rparr>,
           \<lparr>Time = now3, Location = loc3, pH = ph3, Turbidity = turb3, TDS = tds3\<rparr>]"
  by (auto simp add: maybe_log_alert_def)

theorem maybe_log_alert_appends_iff_unsafe_witness:
  "alert_log (maybe_log_alert init_session_state ''Unsafe''
       ''12:00:00'' ''Indore City'' 4 9 1000)
     = [\<lparr>Time = ''12:00:00'', Location = ''Indore City'', pH = 4,
         Turbidity = 9, TDS = 1000\<rparr>]
   \<and> maybe_log_alert init_session_state ''Safe'' ''12:00:04'' ''Indore City'' 7.2 2 350
     = init_session_state
   \<and> maybe_log_alert init_session_state ''Moderate'' ''12:00:08'' ''Indore City'' 9 2 350
     = init_session_state"
  using
    maybe_log_alert_appends_iff_unsafe [of "''Unsafe''" init_session_state
      "''12:00:00''" "''Indore City''" 4 9 1000]
    maybe_log_alert_appends_iff_unsafe [of "''Safe''" init_session_state
      "''12:00:04''" "''Indore City''" "7.2" 2 350]
    maybe_log_alert_appends_iff_unsafe [of "''Moderate''" init_session_state
      "''12:00:08''" "''Indore City''" 9 2 350]
  by (simp add: init_session_state_def)

subsection \<open>A whole run\<close>

text \<open>
  The first run of a session on the reading (4.0, 9.0, 1000): the reading is stored,
  found Unsafe with index 0, and logged once.
\<close>

lemma run_unsafe_reading:
  "run init_session_state ''12:00:00'' ''Indore City'' 4.0 9.0 1000
   = (\<lparr>ph_history = [4], turb_history = [9], tds_history = [1000],
        alert_log = [\<lparr>Time = ''12:00:00'', Location = ''Indore City'', pH = 4,
          Turbidity = 9, TDS = 1000\<rparr>]\<rparr>,
      ''Unsafe'', 0)"
  by (simp add: run_def append_reading_def slice_from_def classify_def wqi_def py_int_def
      fsub_def fadd_def fmul_def int_truediv_def maybe_log_alert_def init_session_state_def)

end
